theory Spec2Isabelle
  imports Main "HOL-Library.Word" "HOL-Library.Sublist"
begin

section \<open>JavaScript strings\<close>

text \<open>
  A JavaScript string is a sequence of UTF-16 code units. String literals of the source
  are ASCII and are written \<open>lit ''...''\<close>.
\<close>

type_synonym jsstring = "16 word list"

definition lit :: "string \<Rightarrow> jsstring" where
  "lit cs = map of_char cs"

text \<open>
  \<^verbatim>\<open>String.prototype.trim\<close> removes leading and trailing WhiteSpace and LineTerminator
  code points (ECMAScript): TAB, LF, VT, FF, CR, SP, NBSP, the Unicode space separators
  (category Zs), LS, PS and ZWNBSP. All of them are single code units.
\<close>

definition isWhiteSpace :: "16 word \<Rightarrow> bool" where
  "isWhiteSpace c \<longleftrightarrow>
     (0x0009 \<le> c \<and> c \<le> 0x000D) \<or> c = 0x0020 \<or> c = 0x00A0 \<or> c = 0x1680 \<or>
     (0x2000 \<le> c \<and> c \<le> 0x200A) \<or> c = 0x2028 \<or> c = 0x2029 \<or> c = 0x202F \<or>
     c = 0x205F \<or> c = 0x3000 \<or> c = 0xFEFF"

definition trim :: "jsstring \<Rightarrow> jsstring" where
  "trim s = rev (dropWhile isWhiteSpace (rev (dropWhile isWhiteSpace s)))"


text \<open>\<^verbatim>\<open>a || b\<close> on strings: the empty string is falsy.\<close>

definition or_else :: "jsstring \<Rightarrow> jsstring \<Rightarrow> jsstring" where
  "or_else a b = (if a = [] then b else a)"


section \<open>Data model and backend responses\<close>

text \<open>
  \<^verbatim>\<open>type Story = { id: number; prompt: string; story: string; created_at: string }\<close>.
  The fields carry the suffix \<open>S\<close>: \<open>id\<close> is a HOL constant and \<open>prompt\<close> is also a
  state variable of the component.
\<close>

record Story =
  idS :: int
  promptS :: jsstring
  storyS :: jsstring
  created_at :: jsstring

text \<open>
  The annotations \<^verbatim>\<open>const data: Story\<close> and \<^verbatim>\<open>const data: Story[]\<close> are not
  checked when the code runs: \<^verbatim>\<open>res.json()\<close> yields whatever the body holds. A decoded
  value standing where a Story is expected is a Story or JSON \<^verbatim>\<open>null\<close> (\<open>None\<close>);
  reading a property of \<^verbatim>\<open>null\<close> throws a TypeError, whose message (here the one of V8)
  is the engine's.
\<close>

type_synonym story_json = "Story option"

definition null_story_message :: jsstring where
  "null_story_message =
     lit ''Cannot read properties of null (reading '' @ [0x27] @ lit ''story'' @ [0x27] @ lit '')''"

text \<open>
  What \<^verbatim>\<open>await fetch(...)\<close> yields. The promise rejects (network error) with an exception
  carrying a message, or resolves with a response. Of a response the code reads
  \<^verbatim>\<open>res.ok\<close> (status in 200..299, Fetch standard), \<^verbatim>\<open>await res.text()\<close> and
  \<^verbatim>\<open>await res.json()\<close>; the last two may reject in turn (\<open>Inl\<close> the message of the
  exception).
\<close>

record 'a response =
  status :: nat
  body_text :: "jsstring + jsstring"
  body_json :: "jsstring + 'a"

datatype 'a fetched = Rejected jsstring | Resolved "'a response"

definition ok :: "'a response \<Rightarrow> bool" where
  "ok res \<longleftrightarrow> 200 \<le> status res \<and> status res \<le> 299"

text \<open>The two calls the components issue; the URL is \<^verbatim>\<open>${API_BASE}/api/story\<close> in both.\<close>

datatype request =
    GET_story
  | POST_story jsstring  \<comment> \<open>the JSON body is \<^verbatim>\<open>{ prompt: p }\<close>\<close>

section \<open>Component state\<close>

text \<open>
  The state variables both components declare with \<^verbatim>\<open>useState\<close>, and two logs of their
  effects: the calls of \<^verbatim>\<open>fetch\<close> issued so far and the messages of the errors passed
  to \<^verbatim>\<open>console.error\<close>.
\<close>

record app =
  prompt :: jsstring
  loading :: bool
  error :: "jsstring option"
  stories :: "story_json list"
  fetches :: "request list"
  console :: "jsstring list"

text \<open>The styled component (first file) adds \<open>fetching\<close>, \<open>generated\<close> and \<open>query\<close>.\<close>

record styled = app +
  fetching :: bool
  generated :: story_json
  query :: jsstring

text \<open>The plain component (second file) adds \<open>current\<close>.\<close>

record plain = app +
  current :: jsstring

definition styled_init :: styled where
  "styled_init = \<lparr>prompt = [], loading = False, error = None, stories = [], fetches = [],
     console = [], fetching = False, generated = None, query = []\<rparr>"

definition plain_init :: plain where
  "plain_init = \<lparr>prompt = [], loading = False, error = None, stories = [], fetches = [],
     console = [], current = []\<rparr>"

section \<open>The styled component\<close>

text \<open>
  An \<^verbatim>\<open>async\<close> function runs up to its \<^verbatim>\<open>await fetch(...)\<close> when it is called, and
  resumes when the fetch settles. Each is two state transformers: the call, and the
  resumption with what the fetch yielded.
\<close>

definition loadStories :: "styled \<Rightarrow> styled" where
  "loadStories s = s\<lparr>fetching := True, fetches := fetches s @ [GET_story]\<rparr>"

definition loadStories_resume :: "story_json list fetched \<Rightarrow> styled \<Rightarrow> styled" where
  "loadStories_resume r s =
     (case (case r of
              Rejected m \<Rightarrow> Inl m
            | Resolved res \<Rightarrow>
                if \<not> ok res then Inl (lit ''Failed to load stories'') else body_json res) of
        Inr data \<Rightarrow> s\<lparr>stories := data, fetching := False\<rparr>
      | Inl e \<Rightarrow> s\<lparr>console := console s @ [e], fetching := False\<rparr>)"

definition onGenerate :: "styled \<Rightarrow> styled" where
  "onGenerate s =
     (let p = trim (prompt s) in
      if p = [] then s
      else s\<lparr>loading := True, error := None, generated := None,
             fetches := fetches s @ [POST_story p]\<rparr>)"

definition onGenerate_resume :: "story_json fetched \<Rightarrow> styled \<Rightarrow> styled" where
  "onGenerate_resume r s =
     (case (case r of
              Rejected m \<Rightarrow> Inl m
            | Resolved res \<Rightarrow>
                if \<not> ok res then
                  (case body_text res of
                     Inl m \<Rightarrow> Inl m
                   | Inr t \<Rightarrow> Inl (or_else t (lit ''Server error'')))
                else body_json res) of
        Inr data \<Rightarrow>
          s\<lparr>generated := data, stories := data # stories s, prompt := [],
             loading := False\<rparr>
      | Inl m \<Rightarrow> s\<lparr>error := Some (or_else m (lit ''Failed to generate'')), loading := False\<rparr>)"


text \<open>
  The triggers. The button is \<^verbatim>\<open>disabled={loading || !prompt.trim()}\<close>, and a disabled
  button delivers no click; the text field calls \<^verbatim>\<open>onGenerate\<close> on every key-down whose
  key is Enter. The refresh button is \<^verbatim>\<open>disabled={fetching}\<close>.
\<close>

definition styled_click :: "styled \<Rightarrow> styled" where
  "styled_click s = (if loading s \<or> trim (prompt s) = [] then s else onGenerate s)"

definition styled_keyDown :: "jsstring \<Rightarrow> styled \<Rightarrow> styled" where
  "styled_keyDown key s = (if key = lit ''Enter'' then onGenerate s else s)"

definition styled_refresh :: "styled \<Rightarrow> styled" where
  "styled_refresh s = (if fetching s then s else loadStories s)"

section \<open>The plain component\<close>

text \<open>
  \<^verbatim>\<open>generate\<close> reads \<^verbatim>\<open>data.story\<close> inside its \<^verbatim>\<open>try\<close>, before any setter of the
  success path runs: on \<^verbatim>\<open>null\<close> that throws, and the \<^verbatim>\<open>catch\<close> takes over. The styled
  \<^verbatim>\<open>onGenerate\<close> passes \<^verbatim>\<open>data\<close> on without reading it.
\<close>

definition loadStories_plain :: "plain \<Rightarrow> plain" where
  "loadStories_plain s = s\<lparr>fetches := fetches s @ [GET_story]\<rparr>"

definition loadStories_plain_resume :: "story_json list fetched \<Rightarrow> plain \<Rightarrow> plain" where
  "loadStories_plain_resume r s =
     (case (case r of
              Rejected m \<Rightarrow> Inl m
            | Resolved res \<Rightarrow>
                if \<not> ok res then Inl (lit ''Failed to load stories'') else body_json res) of
        Inr data \<Rightarrow> s\<lparr>stories := data\<rparr>
      | Inl e \<Rightarrow> s\<lparr>console := console s @ [e]\<rparr>)"

definition generate :: "plain \<Rightarrow> plain" where
  "generate s =
     (let p = trim (prompt s) in
      if p = [] then s
      else s\<lparr>loading := True, error := None, current := [],
             fetches := fetches s @ [POST_story p]\<rparr>)"

definition generate_resume :: "story_json fetched \<Rightarrow> plain \<Rightarrow> plain" where
  "generate_resume r s =
     (case (case r of
              Rejected m \<Rightarrow> Inl m
            | Resolved res \<Rightarrow>
                if \<not> ok res then
                  (case body_text res of
                     Inl m \<Rightarrow> Inl m
                   | Inr t \<Rightarrow> Inl (or_else t (lit ''Server error'')))
                else
                  (case body_json res of
                     Inl m \<Rightarrow> Inl m
                   | Inr None \<Rightarrow> Inl null_story_message
                   | Inr (Some data) \<Rightarrow> Inr data)) of
        Inr data \<Rightarrow>
          s\<lparr>current := storyS data, stories := Some data # stories s, prompt := [],
             loading := False\<rparr>
      | Inl m \<Rightarrow> s\<lparr>error := Some (or_else m (lit ''Failed to generate'')), loading := False\<rparr>)"

definition plain_click :: "plain \<Rightarrow> plain" where
  "plain_click s = (if loading s \<or> trim (prompt s) = [] then s else generate s)"

definition plain_keyDown :: "jsstring \<Rightarrow> plain \<Rightarrow> plain" where
  "plain_keyDown key s = (if key = lit ''Enter'' then generate s else s)"

section \<open>Events\<close>

text \<open>
  What can happen to either component: the prompt field changes (\<^verbatim>\<open>setPrompt\<close>), a key
  goes down in it, the generate button is clicked, \<^verbatim>\<open>loadStories()\<close> is called (by
  the mount effect; in the styled component also by the enabled refresh button), and
  the fetch of either operation settles.
\<close>

datatype event =
    Change jsstring
  | KeyDown jsstring
  | Click
  | LoadStories
  | Listed "story_json list fetched"
  | Generated "story_json fetched"

fun styled_step :: "styled \<Rightarrow> event \<Rightarrow> styled" where
  "styled_step s (Change v) = s\<lparr>prompt := v\<rparr>"
| "styled_step s (KeyDown key) = styled_keyDown key s"
| "styled_step s Click = styled_click s"
| "styled_step s LoadStories = loadStories s"
| "styled_step s (Listed r) = loadStories_resume r s"
| "styled_step s (Generated r) = onGenerate_resume r s"

fun plain_step :: "plain \<Rightarrow> event \<Rightarrow> plain" where
  "plain_step s (Change v) = s\<lparr>prompt := v\<rparr>"
| "plain_step s (KeyDown key) = plain_keyDown key s"
| "plain_step s Click = plain_click s"
| "plain_step s LoadStories = loadStories_plain s"
| "plain_step s (Listed r) = loadStories_plain_resume r s"
| "plain_step s (Generated r) = generate_resume r s"

text \<open>The part of the state both components have.\<close>

definition shared :: "'a app_scheme \<Rightarrow> app" where
  "shared s = \<lparr>prompt = prompt s, loading = loading s, error = error s, stories = stories s,
     fetches = fetches s, console = console s\<rparr>"

text \<open>
  A settled fetch counts as a success when the response is ok and its JSON decodes:
  the \<^verbatim>\<open>try\<close> block then runs to its end.
\<close>

definition succeeded :: "'a fetched \<Rightarrow> bool" where
  "succeeded r = (case r of Rejected m \<Rightarrow> False | Resolved res \<Rightarrow> ok res \<and> \<not> isl (body_json res))"

text \<open>The response is ok and its JSON decodes to \<^verbatim>\<open>null\<close>.\<close>

definition returned_null :: "story_json fetched \<Rightarrow> bool" where
  "returned_null r =
     (case r of Rejected m \<Rightarrow> False | Resolved res \<Rightarrow> ok res \<and> body_json res = Inr None)"

text \<open>The event is a generation fetch settling with such a response.\<close>

definition null_story_event :: "event \<Rightarrow> bool" where
  "null_story_event e = (case e of Generated r \<Rightarrow> returned_null r | _ \<Rightarrow> False)"


section \<open>Example data\<close>

text \<open>The stories, responses and states the theorems below are evaluated on.\<close>

definition cats :: Story where
  "cats = \<lparr>idS = 1, promptS = lit ''cats'', storyS = lit ''...'',
     created_at = lit ''2024-05-01T10:00:00''\<rparr>"

definition dogs :: Story where
  "dogs = \<lparr>idS = 2, promptS = lit ''dogs'', storyS = lit ''...'',
     created_at = lit ''2024-05-01T11:00:00''\<rparr>"

definition dragons :: Story where
  "dragons = \<lparr>idS = 3, promptS = lit ''dragons'', storyS = lit ''Once upon a time'',
     created_at = lit ''2024-05-02T09:30:00''\<rparr>"

definition created_200 :: "story_json response" where
  "created_200 = \<lparr>status = 200, body_text = Inr (lit ''{}''), body_json = Inr (Some dragons)\<rparr>"

definition created_201 :: "story_json response" where
  "created_201 = \<lparr>status = 201, body_text = Inr (lit ''{}''), body_json = Inr (Some dragons)\<rparr>"

definition listed_200 :: "story_json list response" where
  "listed_200 = \<lparr>status = 200, body_text = Inr (lit ''[]''), body_json = Inr [Some cats, Some dogs]\<rparr>"

definition listed_201 :: "story_json list response" where
  "listed_201 = \<lparr>status = 201, body_text = Inr (lit ''[]''), body_json = Inr [Some cats, Some dogs]\<rparr>"

definition boom_500 :: "'a response" where
  "boom_500 = \<lparr>status = 500, body_text = Inr (lit ''boom''),
     body_json = Inl (lit ''Unexpected token'')\<rparr>"

definition empty_500 :: "'a response" where
  "empty_500 = \<lparr>status = 500, body_text = Inr [],
     body_json = Inl (lit ''Unexpected end of JSON input'')\<rparr>"

definition null_200 :: "story_json response" where
  "null_200 = \<lparr>status = 200, body_text = Inr (lit ''null''), body_json = Inr None\<rparr>"

definition typed_dragons :: styled where
  "typed_dragons = styled_init\<lparr>prompt := lit ''dragons'', stories := [Some cats, Some dogs]\<rparr>"

definition typed_dragons_plain :: plain where
  "typed_dragons_plain = plain_init\<lparr>prompt := lit ''dragons'', stories := [Some cats, Some dogs]\<rparr>"

section \<open>Whitespace, trimming and substrings\<close>

lemma dropWhile_rev_Nil_iff:
  "dropWhile P (rev (dropWhile P s)) = [] \<longleftrightarrow> (\<forall>c\<in>set s. P c)"
proof
  assume h: "dropWhile P (rev (dropWhile P s)) = []"
  show "\<forall>c\<in>set s. P c"
  proof (cases "dropWhile P s")
    case Nil
    then show ?thesis by simp
  next
    case (Cons a as)
    then have "\<not> P a" by (metis hd_dropWhile list.sel(1) list.distinct(1))
    moreover from h Cons have "P a" by simp
    ultimately show ?thesis by simp
  qed
next
  assume "\<forall>c\<in>set s. P c"
  then show "dropWhile P (rev (dropWhile P s)) = []"
    by (auto dest: set_dropWhileD)
qed

lemma trim_Nil_iff: "trim s = [] \<longleftrightarrow> (\<forall>c\<in>set s. isWhiteSpace c)"
  unfolding trim_def rev_is_Nil_conv by (rule dropWhile_rev_Nil_iff)


lemma trim_dragons: "trim (lit ''dragons'') = lit ''dragons''"
  by (simp add: lit_def trim_def isWhiteSpace_def)

lemmas example_defs = styled_init_def plain_init_def typed_dragons_def typed_dragons_plain_def
  created_200_def created_201_def listed_200_def listed_201_def boom_500_def empty_500_def
  null_200_def

lemmas generate_defs = onGenerate_def onGenerate_resume_def generate_def generate_resume_def
  Let_def

lemmas load_defs = loadStories_def loadStories_resume_def loadStories_plain_def
  loadStories_plain_resume_def

section \<open>Generating a story\<close>

text \<open>
  C6. When the prompt is empty or holds only whitespace, triggering the generate
  operation (the function itself, the button, or any key in the prompt field) returns
  the state as it was, in both components: no state variable changes and the log of
  fetch calls is the same, so no network call is made.
\<close>

theorem blank_prompt_is_noop:
  fixes s :: styled and t :: plain
  assumes "\<forall>c\<in>set (prompt s). isWhiteSpace c" and "\<forall>c\<in>set (prompt t). isWhiteSpace c"
  shows "onGenerate s = s \<and> styled_click s = s \<and> styled_keyDown key s = s \<and>
         generate t = t \<and> plain_click t = t \<and> plain_keyDown key t = t"
  using assms
  by (simp add: onGenerate_def generate_def styled_click_def plain_click_def
      styled_keyDown_def plain_keyDown_def trim_Nil_iff [symmetric])

theorem blank_prompt_is_noop_witness:
  "list_all isWhiteSpace (prompt (styled_init\<lparr>prompt := [0x20, 0x09, 0xA0]\<rparr>)) \<and>
   list_all isWhiteSpace (prompt (plain_init\<lparr>prompt := []\<rparr>)) \<and>
   onGenerate (styled_init\<lparr>prompt := [0x20, 0x09, 0xA0]\<rparr>)
     = styled_init\<lparr>prompt := [0x20, 0x09, 0xA0]\<rparr> \<and>
   styled_keyDown (lit ''Enter'') (styled_init\<lparr>prompt := [0x20, 0x09, 0xA0]\<rparr>)
     = styled_init\<lparr>prompt := [0x20, 0x09, 0xA0]\<rparr> \<and>
   generate (plain_init\<lparr>prompt := []\<rparr>) = plain_init\<lparr>prompt := []\<rparr> \<and>
   plain_keyDown (lit ''Enter'') (plain_init\<lparr>prompt := []\<rparr>) = plain_init\<lparr>prompt := []\<rparr>"
  using blank_prompt_is_noop [of "styled_init\<lparr>prompt := [0x20, 0x09, 0xA0]\<rparr>"
      "plain_init\<lparr>prompt := []\<rparr>" "lit ''Enter''"]
  by (simp add: isWhiteSpace_def)

text \<open>
  C1. With a prompt that is not empty after trimming, when the POST comes back ok and its
  JSON decodes to a Story \<open>data\<close> (not \<^verbatim>\<open>null\<close>), the run of the generate operation ends in the state
  it started from with \<open>data\<close> as the generated result (its text as \<open>current\<close> in the
  plain component), \<open>data\<close> put in front of the story collection and the rest after it
  unchanged, the prompt cleared, no error and the loading flag off; one POST carrying
  the trimmed prompt has been issued.
\<close>

theorem generate_success:
  fixes s :: styled and t :: plain
  assumes "trim (prompt s) \<noteq> []" and "trim (prompt t) \<noteq> []"
    and "ok res" and "body_json res = Inr (Some data)"
  shows "onGenerate_resume (Resolved res) (onGenerate s) =
           s\<lparr>generated := Some data, stories := Some data # stories s, prompt := [],
             loading := False, error := None,
             fetches := fetches s @ [POST_story (trim (prompt s))]\<rparr> \<and>
         generate_resume (Resolved res) (generate t) =
           t\<lparr>current := storyS data, stories := Some data # stories t, prompt := [],
             loading := False, error := None,
             fetches := fetches t @ [POST_story (trim (prompt t))]\<rparr>"
  using assms by (simp add: generate_defs)

theorem generate_success_witness:
  "trim (prompt typed_dragons) \<noteq> [] \<and> trim (prompt typed_dragons_plain) \<noteq> [] \<and>
   ok created_200 \<and> body_json created_200 = Inr (Some dragons) \<and>
   onGenerate_resume (Resolved created_200) (onGenerate typed_dragons) =
     styled_init\<lparr>generated := Some dragons, stories := [Some dragons, Some cats, Some dogs],
       fetches := [POST_story (lit ''dragons'')]\<rparr> \<and>
   generate_resume (Resolved created_200) (generate typed_dragons_plain) =
     plain_init\<lparr>current := lit ''Once upon a time'', stories := [Some dragons, Some cats, Some dogs],
       fetches := [POST_story (lit ''dragons'')]\<rparr>"
proof -
  have p: "trim (prompt typed_dragons) \<noteq> []" "trim (prompt typed_dragons_plain) \<noteq> []"
    by (simp_all add: example_defs trim_dragons) (simp_all add: lit_def)
  have r: "ok created_200" "body_json created_200 = Inr (Some dragons)"
    by (simp_all add: created_200_def ok_def)
  show ?thesis
    using generate_success [OF p r] p r
    by (simp add: example_defs trim_dragons dragons_def)
qed

text \<open>
  C2. A generation attempt fails when the fetch rejects (network error) or the response
  is not ok (status outside 200..299). Then the story collection is what it was before
  the call, the loading flag is off, and the error is set to a non-empty message: the
  response body text when that is non-empty, \<open>Server error\<close> when the body is empty,
  and for a network error the message of the exception, or \<open>Failed to generate\<close> when
  that is empty.
\<close>

theorem generate_failure:
  fixes s :: styled and t :: plain
  assumes "r = Rejected m \<or> (r = Resolved res \<and> \<not> ok res)"
  shows "stories (onGenerate_resume r (onGenerate s)) = stories s \<and>
         \<not> loading (onGenerate_resume r (onGenerate s)) \<and>
         error (onGenerate_resume r (onGenerate s)) \<noteq> None \<and>
         error (onGenerate_resume r (onGenerate s)) \<noteq> Some [] \<and>
         (r = Resolved res \<and> body_text res = Inr b \<and> b \<noteq> [] \<longrightarrow>
            error (onGenerate_resume r (onGenerate s)) = Some b) \<and>
         (r = Resolved res \<and> body_text res = Inr [] \<longrightarrow>
            error (onGenerate_resume r (onGenerate s)) = Some (lit ''Server error'')) \<and>
         (r = Rejected m \<longrightarrow>
            error (onGenerate_resume r (onGenerate s))
              = Some (if m = [] then lit ''Failed to generate'' else m)) \<and>
         stories (generate_resume r (generate t)) = stories t \<and>
         \<not> loading (generate_resume r (generate t)) \<and>
         error (generate_resume r (generate t)) \<noteq> None \<and>
         error (generate_resume r (generate t)) \<noteq> Some [] \<and>
         (r = Resolved res \<and> body_text res = Inr b \<and> b \<noteq> [] \<longrightarrow>
            error (generate_resume r (generate t)) = Some b) \<and>
         (r = Resolved res \<and> body_text res = Inr [] \<longrightarrow>
            error (generate_resume r (generate t)) = Some (lit ''Server error'')) \<and>
         (r = Rejected m \<longrightarrow>
            error (generate_resume r (generate t))
              = Some (if m = [] then lit ''Failed to generate'' else m))"
  using assms
  by (auto simp add: generate_defs or_else_def lit_def split: sum.splits)

theorem generate_failure_witness:
  "\<not> ok (boom_500 :: story_json response) \<and>
   error (onGenerate_resume (Resolved boom_500) (onGenerate typed_dragons)) = Some (lit ''boom'') \<and>
   stories (onGenerate_resume (Resolved boom_500) (onGenerate typed_dragons)) = [Some cats, Some dogs] \<and>
   \<not> loading (onGenerate_resume (Resolved boom_500) (onGenerate typed_dragons)) \<and>
   error (generate_resume (Resolved boom_500) (generate typed_dragons_plain)) = Some (lit ''boom'') \<and>
   stories (generate_resume (Resolved boom_500) (generate typed_dragons_plain)) = [Some cats, Some dogs] \<and>
   \<not> loading (generate_resume (Resolved boom_500) (generate typed_dragons_plain))"
proof -
  have f: "Resolved (boom_500 :: story_json response) = Rejected [] \<or>
      (Resolved boom_500 = Resolved (boom_500 :: story_json response) \<and>
       \<not> ok (boom_500 :: story_json response))"
    by (simp add: boom_500_def ok_def)
  have b: "body_text (boom_500 :: story_json response) = Inr (lit ''boom'')" "lit ''boom'' \<noteq> []"
    by (simp_all add: boom_500_def lit_def)
  have st: "stories typed_dragons = [Some cats, Some dogs]" "stories typed_dragons_plain = [Some cats, Some dogs]"
    by (simp_all add: example_defs)
  from f have "\<not> ok (boom_500 :: story_json response)" by simp
  then show ?thesis
    using generate_failure [where b = "lit ''boom''" and s = typed_dragons
        and t = typed_dragons_plain, OF f] b st
    by simp
qed

text \<open>
  C10. With a prompt that is not empty after trimming, the call of the generate operation
  clears the error and the generated result (\<open>current\<close> in the plain component) in the
  step that issues the POST, and leaves the prompt as typed. When the attempt then fails
  the generated result is still cleared. The resumption, from whatever state it finds,
  clears the prompt exactly when the attempt succeeded and leaves it unchanged otherwise.
  An ok response whose JSON is \<^verbatim>\<open>null\<close> is a success for the styled component, whose
  \<^verbatim>\<open>try\<close> block runs to its end, and a failure for the plain one, which throws on
  \<^verbatim>\<open>data.story\<close>.
\<close>

theorem generate_clears_previous:
  fixes s u :: styled and t v :: plain
  assumes "trim (prompt s) \<noteq> []" and "trim (prompt t) \<noteq> []"
  shows "error (onGenerate s) = None \<and> generated (onGenerate s) = None \<and>
         prompt (onGenerate s) = prompt s \<and>
         fetches (onGenerate s) = fetches s @ [POST_story (trim (prompt s))] \<and>
         (\<not> succeeded r \<longrightarrow> generated (onGenerate_resume r (onGenerate s)) = None) \<and>
         prompt (onGenerate_resume r u) = (if succeeded r then [] else prompt u) \<and>
         error (generate t) = None \<and> current (generate t) = [] \<and>
         prompt (generate t) = prompt t \<and>
         fetches (generate t) = fetches t @ [POST_story (trim (prompt t))] \<and>
         (\<not> succeeded r \<or> returned_null r \<longrightarrow>
            current (generate_resume r (generate t)) = []) \<and>
         prompt (generate_resume r v)
           = (if succeeded r \<and> \<not> returned_null r then [] else prompt v)"
  using assms
  by (auto simp add: generate_defs succeeded_def returned_null_def
      split: fetched.splits sum.splits option.splits)

theorem generate_clears_previous_witness:
  "trim (prompt (typed_dragons\<lparr>error := Some (lit ''old''), generated := Some cats\<rparr>)) \<noteq> [] \<and>
   trim (prompt (typed_dragons_plain\<lparr>error := Some (lit ''old''), current := lit ''...''\<rparr>)) \<noteq> [] \<and>
   \<not> succeeded (Resolved boom_500 :: story_json fetched) \<and>
   error (onGenerate (typed_dragons\<lparr>error := Some (lit ''old''), generated := Some cats\<rparr>)) = None \<and>
   generated (onGenerate (typed_dragons\<lparr>error := Some (lit ''old''), generated := Some cats\<rparr>)) = None \<and>
   generated (onGenerate_resume (Resolved boom_500)
     (onGenerate (typed_dragons\<lparr>error := Some (lit ''old''), generated := Some cats\<rparr>))) = None \<and>
   prompt (onGenerate_resume (Resolved boom_500)
     (onGenerate (typed_dragons\<lparr>error := Some (lit ''old''), generated := Some cats\<rparr>)))
     = lit ''dragons'' \<and>
   current (generate (typed_dragons_plain\<lparr>error := Some (lit ''old''), current := lit ''...''\<rparr>)) = [] \<and>
   current (generate_resume (Resolved boom_500)
     (generate (typed_dragons_plain\<lparr>error := Some (lit ''old''), current := lit ''...''\<rparr>))) = [] \<and>
   prompt (generate_resume (Resolved boom_500)
     (generate (typed_dragons_plain\<lparr>error := Some (lit ''old''), current := lit ''...''\<rparr>)))
     = lit ''dragons'' \<and>
   succeeded (Resolved null_200) \<and> returned_null (Resolved null_200) \<and>
   prompt (onGenerate_resume (Resolved null_200)
     (onGenerate (typed_dragons\<lparr>error := Some (lit ''old''), generated := Some cats\<rparr>))) = [] \<and>
   current (generate_resume (Resolved null_200)
     (generate (typed_dragons_plain\<lparr>error := Some (lit ''old''), current := lit ''...''\<rparr>))) = [] \<and>
   prompt (generate_resume (Resolved null_200)
     (generate (typed_dragons_plain\<lparr>error := Some (lit ''old''), current := lit ''...''\<rparr>)))
     = lit ''dragons''"
proof -
  let ?s = "typed_dragons\<lparr>error := Some (lit ''old''), generated := Some cats\<rparr>"
  let ?t = "typed_dragons_plain\<lparr>error := Some (lit ''old''), current := lit ''...''\<rparr>"
  have p: "trim (prompt ?s) \<noteq> []" "trim (prompt ?t) \<noteq> []"
    by (simp_all add: example_defs trim_dragons) (simp_all add: lit_def)
  have f: "\<not> succeeded (Resolved boom_500 :: story_json fetched)"
    by (simp add: succeeded_def boom_500_def ok_def)
  have n: "succeeded (Resolved null_200)" "returned_null (Resolved null_200)"
    by (simp_all add: succeeded_def returned_null_def null_200_def ok_def)
  have q: "prompt (onGenerate ?s) = lit ''dragons''" "prompt (generate ?t) = lit ''dragons''"
    using p by (simp_all add: generate_defs example_defs)
  note failed = generate_clears_previous [OF p, where r = "Resolved boom_500"
      and u = "onGenerate ?s" and v = "generate ?t"]
  note null = generate_clears_previous [OF p, where r = "Resolved null_200"
      and u = "onGenerate ?s" and v = "generate ?t"]
  have 1: "error (onGenerate ?s) = None" "generated (onGenerate ?s) = None"
    "current (generate ?t) = []"
    using failed by blast+
  have 2: "generated (onGenerate_resume (Resolved boom_500) (onGenerate ?s)) = None"
    "current (generate_resume (Resolved boom_500) (generate ?t)) = []"
    using failed f by blast+
  have 3: "prompt (onGenerate_resume (Resolved boom_500) (onGenerate ?s)) = lit ''dragons''"
    "prompt (generate_resume (Resolved boom_500) (generate ?t)) = lit ''dragons''"
    using failed f q by simp_all
  have 4: "current (generate_resume (Resolved null_200) (generate ?t)) = []"
    using null n by blast
  have 5: "prompt (onGenerate_resume (Resolved null_200) (onGenerate ?s)) = []"
    "prompt (generate_resume (Resolved null_200) (generate ?t)) = lit ''dragons''"
    using null n q by simp_all
  from p f n 1 2 3 4 5 show ?thesis
    by (intro conjI)
qed

section \<open>Listing the stories\<close>

text \<open>
  C5. When the GET comes back ok and its JSON decodes to the array \<open>data\<close>, the run of
  the list operation ends in the state it started from with the story collection
  replaced by \<open>data\<close>, as many entries in the same order; one GET has been issued.
\<close>

theorem list_success:
  fixes s :: styled and t :: plain
  assumes "ok res" and "body_json res = Inr data"
  shows "loadStories_resume (Resolved res) (loadStories s) =
           s\<lparr>stories := data, fetching := False, fetches := fetches s @ [GET_story]\<rparr> \<and>
         loadStories_plain_resume (Resolved res) (loadStories_plain t) =
           t\<lparr>stories := data, fetches := fetches t @ [GET_story]\<rparr> \<and>
         length (stories (loadStories_resume (Resolved res) (loadStories s))) = length data \<and>
         length (stories (loadStories_plain_resume (Resolved res) (loadStories_plain t)))
           = length data"
  using assms by (simp add: load_defs)

theorem list_success_witness:
  "ok listed_200 \<and> body_json listed_200 = Inr [Some cats, Some dogs] \<and>
   loadStories_resume (Resolved listed_200) (loadStories (styled_init\<lparr>stories := [Some dragons]\<rparr>)) =
     styled_init\<lparr>stories := [Some cats, Some dogs], fetches := [GET_story]\<rparr> \<and>
   loadStories_plain_resume (Resolved listed_200)
       (loadStories_plain (plain_init\<lparr>stories := [Some dragons]\<rparr>)) =
     plain_init\<lparr>stories := [Some cats, Some dogs], fetches := [GET_story]\<rparr> \<and>
   length (stories (loadStories_resume (Resolved listed_200)
     (loadStories (styled_init\<lparr>stories := [Some dragons]\<rparr>)))) = 2"
proof -
  have r: "ok listed_200" "body_json listed_200 = Inr [Some cats, Some dogs]"
    by (simp_all add: listed_200_def ok_def)
  show ?thesis
    using list_success [OF r, of "styled_init\<lparr>stories := [Some dragons]\<rparr>"
        "plain_init\<lparr>stories := [Some dragons]\<rparr>"] r
    by (simp add: example_defs)
qed

text \<open>
  C7. When the listing fails (the fetch rejects, or the response is not ok), the run of
  the list operation changes no state variable: the story collection and the error are
  the ones before the call, and nothing reaches the user. The failure goes to the
  console only. The busy flag \<open>fetching\<close> of the styled component is off afterwards, as it
  is whenever the operation can be triggered.
\<close>

theorem list_failure:
  fixes s :: styled and t :: plain
  assumes "r = Rejected m \<or> (r = Resolved res \<and> \<not> ok res)"
  shows "loadStories_resume r (loadStories s) =
           s\<lparr>fetching := False, fetches := fetches s @ [GET_story],
             console := console s @
               [if r = Rejected m then m else lit ''Failed to load stories'']\<rparr> \<and>
         (\<not> fetching s \<longrightarrow>
            loadStories_resume r (loadStories s) =
              s\<lparr>fetches := fetches s @ [GET_story],
                console := console s @
                  [if r = Rejected m then m else lit ''Failed to load stories'']\<rparr>) \<and>
         error (loadStories_resume r (loadStories s)) = error s \<and>
         stories (loadStories_resume r (loadStories s)) = stories s \<and>
         loadStories_plain_resume r (loadStories_plain t) =
           t\<lparr>fetches := fetches t @ [GET_story],
             console := console t @
               [if r = Rejected m then m else lit ''Failed to load stories'']\<rparr> \<and>
         error (loadStories_plain_resume r (loadStories_plain t)) = error t \<and>
         stories (loadStories_plain_resume r (loadStories_plain t)) = stories t"
  using assms by (auto simp add: load_defs)

theorem list_failure_witness:
  "\<not> ok (boom_500 :: story_json list response) \<and> \<not> fetching typed_dragons \<and>
   loadStories_resume (Resolved boom_500) (loadStories typed_dragons) =
     typed_dragons\<lparr>fetches := [GET_story], console := [lit ''Failed to load stories'']\<rparr> \<and>
   loadStories_plain_resume (Resolved boom_500) (loadStories_plain typed_dragons_plain) =
     typed_dragons_plain\<lparr>fetches := [GET_story], console := [lit ''Failed to load stories'']\<rparr> \<and>
   loadStories_resume (Rejected (lit ''Failed to fetch'')) (loadStories typed_dragons) =
     typed_dragons\<lparr>fetches := [GET_story], console := [lit ''Failed to fetch'']\<rparr>"
proof -
  have f: "Resolved (boom_500 :: story_json list response) = Rejected [] \<or>
      (Resolved boom_500 = Resolved (boom_500 :: story_json list response) \<and>
       \<not> ok (boom_500 :: story_json list response))"
    by (simp add: boom_500_def ok_def)
  have g: "Rejected (lit ''Failed to fetch'') = Rejected (lit ''Failed to fetch'') \<or>
      (Rejected (lit ''Failed to fetch'') = Resolved listed_200 \<and> \<not> ok listed_200)"
    by simp
  have i: "\<not> fetching typed_dragons" "fetches typed_dragons = []" "console typed_dragons = []"
    "fetches typed_dragons_plain = []" "console typed_dragons_plain = []"
    by (simp_all add: example_defs)
  from f have "\<not> ok (boom_500 :: story_json list response)" by simp
  then show ?thesis
    using list_failure [OF f, of typed_dragons typed_dragons_plain]
      list_failure [OF g, of typed_dragons typed_dragons_plain] i
    by simp
qed

section \<open>Status codes\<close>

text \<open>
  C8, as the code has it. A response whose status lies outside 200..299 is a failure for
  both calls. The listing keeps the story collection and logs \<open>Failed to load stories\<close>.
  The generation keeps the story collection and the generated result, and sets the
  error to the response body text when that is non-empty and to \<open>Server error\<close> when
  it is empty.
\<close>

theorem non_2xx_is_failure:
  fixes s :: styled and t :: plain
    and lres :: "story_json list response" and gres :: "story_json response"
  assumes "status lres < 200 \<or> 299 < status lres"
    and "status gres < 200 \<or> 299 < status gres"
    and "body_text gres = Inr b"
  shows "stories (loadStories_resume (Resolved lres) s) = stories s \<and>
         console (loadStories_resume (Resolved lres) s)
           = console s @ [lit ''Failed to load stories''] \<and>
         stories (loadStories_plain_resume (Resolved lres) t) = stories t \<and>
         console (loadStories_plain_resume (Resolved lres) t)
           = console t @ [lit ''Failed to load stories''] \<and>
         error (onGenerate_resume (Resolved gres) s)
           = Some (if b = [] then lit ''Server error'' else b) \<and>
         stories (onGenerate_resume (Resolved gres) s) = stories s \<and>
         generated (onGenerate_resume (Resolved gres) s) = generated s \<and>
         error (generate_resume (Resolved gres) t)
           = Some (if b = [] then lit ''Server error'' else b) \<and>
         stories (generate_resume (Resolved gres) t) = stories t \<and>
         current (generate_resume (Resolved gres) t) = current t"
  using assms
  by (auto simp add: load_defs generate_defs ok_def or_else_def lit_def)

theorem non_2xx_is_failure_witness:
  "299 < status (boom_500 :: story_json list response) \<and>
   299 < status (boom_500 :: story_json response) \<and>
   stories (loadStories_resume (Resolved boom_500) typed_dragons) = [Some cats, Some dogs] \<and>
   console (loadStories_resume (Resolved boom_500) typed_dragons)
     = [lit ''Failed to load stories''] \<and>
   error (onGenerate_resume (Resolved boom_500) typed_dragons) = Some (lit ''boom'') \<and>
   stories (onGenerate_resume (Resolved boom_500) typed_dragons) = [Some cats, Some dogs] \<and>
   error (generate_resume (Resolved boom_500) typed_dragons_plain) = Some (lit ''boom'') \<and>
   stories (generate_resume (Resolved boom_500) typed_dragons_plain) = [Some cats, Some dogs]"
proof -
  have l: "status (boom_500 :: story_json list response) < 200 \<or>
      299 < status (boom_500 :: story_json list response)"
    by (simp add: boom_500_def)
  have g: "status (boom_500 :: story_json response) < 200 \<or>
      299 < status (boom_500 :: story_json response)"
    by (simp add: boom_500_def)
  have b: "body_text (boom_500 :: story_json response) = Inr (lit ''boom'')"
    by (simp add: boom_500_def)
  have n: "lit ''boom'' \<noteq> []"
    by (simp add: lit_def)
  have i: "stories typed_dragons = [Some cats, Some dogs]" "console typed_dragons = []"
    "stories typed_dragons_plain = [Some cats, Some dogs]"
    by (simp_all add: example_defs)
  have "299 < status (boom_500 :: story_json list response)"
    "299 < status (boom_500 :: story_json response)"
    by (simp_all add: boom_500_def)
  then show ?thesis
    using non_2xx_is_failure [OF l g b, of typed_dragons typed_dragons_plain] n i
    by simp
qed

text \<open>
  C8 read with 200 as the only success fails at status 201: both calls take the response
  as a success, the listing replacing the collection and the generation prepending the
  story with no error set. And at status 500 with an empty body the error shown is
  \<open>Server error\<close>, which is not the response body.
\<close>

theorem non_200_counterexample:
  "status created_201 \<noteq> 200 \<and> status listed_201 \<noteq> 200 \<and>
   loadStories_resume (Resolved listed_201) (loadStories styled_init) =
     styled_init\<lparr>stories := [Some cats, Some dogs], fetches := [GET_story]\<rparr> \<and>
   loadStories_plain_resume (Resolved listed_201) (loadStories_plain plain_init) =
     plain_init\<lparr>stories := [Some cats, Some dogs], fetches := [GET_story]\<rparr> \<and>
   onGenerate_resume (Resolved created_201) (onGenerate typed_dragons) =
     styled_init\<lparr>generated := Some dragons, stories := [Some dragons, Some cats, Some dogs],
       fetches := [POST_story (lit ''dragons'')]\<rparr> \<and>
   generate_resume (Resolved created_201) (generate typed_dragons_plain) =
     plain_init\<lparr>current := lit ''Once upon a time'', stories := [Some dragons, Some cats, Some dogs],
       fetches := [POST_story (lit ''dragons'')]\<rparr> \<and>
   status (empty_500 :: story_json response) \<noteq> 200 \<and>
   body_text (empty_500 :: story_json response) = Inr [] \<and>
   error (onGenerate_resume (Resolved empty_500) (onGenerate typed_dragons))
     = Some (lit ''Server error'') \<and>
   error (generate_resume (Resolved empty_500) (generate typed_dragons_plain))
     = Some (lit ''Server error'')"
  by (simp add: example_defs load_defs generate_defs trim_dragons ok_def or_else_def
      dragons_def) (simp add: lit_def)

section \<open>Repeated triggering\<close>

text \<open>
  C3. The generate button is disabled while \<open>loading\<close> is set, so a click is then
  ignored. The Enter key in the prompt field calls the operation with no such test:
  with \<open>dragons\<close> typed, a first Enter sets \<open>loading\<close> and issues one POST, and a second
  Enter before any response issues a second POST, in both components.
\<close>

theorem enter_twice_posts_twice:
  "loading (styled_keyDown (lit ''Enter'') typed_dragons) \<and>
   fetches (styled_keyDown (lit ''Enter'') typed_dragons) = [POST_story (lit ''dragons'')] \<and>
   styled_click (styled_keyDown (lit ''Enter'') typed_dragons)
     = styled_keyDown (lit ''Enter'') typed_dragons \<and>
   fetches (styled_keyDown (lit ''Enter'') (styled_keyDown (lit ''Enter'') typed_dragons))
     = [POST_story (lit ''dragons''), POST_story (lit ''dragons'')] \<and>
   loading (plain_keyDown (lit ''Enter'') typed_dragons_plain) \<and>
   fetches (plain_keyDown (lit ''Enter'') typed_dragons_plain) = [POST_story (lit ''dragons'')] \<and>
   plain_click (plain_keyDown (lit ''Enter'') typed_dragons_plain)
     = plain_keyDown (lit ''Enter'') typed_dragons_plain \<and>
   fetches (plain_keyDown (lit ''Enter'') (plain_keyDown (lit ''Enter'') typed_dragons_plain))
     = [POST_story (lit ''dragons''), POST_story (lit ''dragons'')]"
  by (simp add: example_defs styled_keyDown_def plain_keyDown_def styled_click_def
      plain_click_def generate_defs trim_dragons) (simp add: lit_def)

section \<open>Filtering\<close>




section \<open>The two components\<close>

text \<open>
  The refresh button of the styled component is one more caller of the list operation:
  enabled, it is the event \<open>LoadStories\<close>; disabled, it does nothing.
\<close>

lemma styled_refresh_step:
  "styled_refresh s = (if fetching s then s else styled_step s LoadStories)"
  by (simp add: styled_refresh_def)

lemma null_story_message_nonempty: "null_story_message \<noteq> []"
  by (simp add: null_story_message_def lit_def)

lemma step_shared:
  fixes s :: styled and t :: plain
  assumes "shared s = shared t" and "\<not> null_story_event e"
  shows "shared (styled_step s e) = shared (plain_step t e)"
proof -
  from assms have eq: "prompt s = prompt t" "loading s = loading t" "error s = error t"
    "stories s = stories t" "fetches s = fetches t" "console s = console t"
    by (simp_all add: shared_def)
  show ?thesis
  proof (cases e)
    case (Change v)
    with eq show ?thesis by (simp add: shared_def)
  next
    case (KeyDown key)
    with eq show ?thesis
      by (simp add: shared_def styled_keyDown_def plain_keyDown_def onGenerate_def
          generate_def Let_def)
  next
    case Click
    with eq show ?thesis
      by (simp add: shared_def styled_click_def plain_click_def onGenerate_def
          generate_def Let_def)
  next
    case LoadStories
    with eq show ?thesis by (simp add: shared_def loadStories_def loadStories_plain_def)
  next
    case (Listed r)
    with eq show ?thesis
      by (simp add: shared_def loadStories_resume_def loadStories_plain_resume_def
          split: fetched.splits sum.splits)
  next
    case (Generated r)
    with assms(2) have "\<not> returned_null r"
      by (simp add: null_story_event_def)
    with eq Generated show ?thesis
      by (auto simp add: shared_def onGenerate_resume_def generate_resume_def
          returned_null_def split: fetched.splits sum.splits option.splits)
  qed
qed

lemma run_shared:
  fixes s :: styled and t :: plain
  shows "shared s = shared t \<Longrightarrow> \<forall>e\<in>set es. \<not> null_story_event e \<Longrightarrow>
    shared (foldl styled_step s es) = shared (foldl plain_step t es)"
  by (induction es arbitrary: s t) (simp_all add: step_shared)

text \<open>
  C9, as the code has it. Started from their initial states and given the same sequence
  of events (prompt edits, key presses, clicks on the generate button, calls of the list
  operation and settled fetches) in which no generation fetch settles with an ok
  response whose JSON is \<^verbatim>\<open>null\<close>, the styled and the plain component end with the
  same prompt, loading flag, error, story collection, fetch calls issued and console
  messages.
\<close>

theorem variants_agree_unless_null:
  assumes "\<forall>e\<in>set es. \<not> null_story_event e"
  shows "shared (foldl styled_step styled_init es) = shared (foldl plain_step plain_init es)"
  using assms
  by (intro run_shared) (simp_all add: shared_def styled_init_def plain_init_def)

theorem variants_agree_unless_null_witness:
  "list_all (\<lambda>e. \<not> null_story_event e)
     [LoadStories, Listed (Resolved listed_200), Change (lit ''dragons''),
      KeyDown (lit ''Enter''), Generated (Resolved boom_500), Click,
      Generated (Resolved created_200)] \<and>
   shared (foldl styled_step styled_init
     [LoadStories, Listed (Resolved listed_200), Change (lit ''dragons''),
      KeyDown (lit ''Enter''), Generated (Resolved boom_500), Click,
      Generated (Resolved created_200)]) =
   \<lparr>prompt = [], loading = False, error = None, stories = [Some dragons, Some cats, Some dogs],
     fetches = [GET_story, POST_story (lit ''dragons''), POST_story (lit ''dragons'')],
     console = []\<rparr> \<and>
   shared (foldl plain_step plain_init
     [LoadStories, Listed (Resolved listed_200), Change (lit ''dragons''),
      KeyDown (lit ''Enter''), Generated (Resolved boom_500), Click,
      Generated (Resolved created_200)]) =
   \<lparr>prompt = [], loading = False, error = None, stories = [Some dragons, Some cats, Some dogs],
     fetches = [GET_story, POST_story (lit ''dragons''), POST_story (lit ''dragons'')],
     console = []\<rparr>"
proof -
  let ?es = "[LoadStories, Listed (Resolved listed_200), Change (lit ''dragons''),
      KeyDown (lit ''Enter''), Generated (Resolved boom_500), Click,
      Generated (Resolved created_200)]"
  have h: "\<forall>e\<in>set ?es. \<not> null_story_event e"
    by (simp add: null_story_event_def returned_null_def boom_500_def created_200_def ok_def)
  have p: "shared (foldl plain_step plain_init ?es) =
   \<lparr>prompt = [], loading = False, error = None, stories = [Some dragons, Some cats, Some dogs],
     fetches = [GET_story, POST_story (lit ''dragons''), POST_story (lit ''dragons'')],
     console = []\<rparr>"
    by (simp add: shared_def example_defs load_defs generate_defs plain_keyDown_def
        plain_click_def ok_def or_else_def trim_dragons) (simp add: lit_def)
  from h have l: "list_all (\<lambda>e. \<not> null_story_event e) ?es"
    by (simp only: list_all_iff)
  from p have "shared (foldl styled_step styled_init ?es) =
   \<lparr>prompt = [], loading = False, error = None, stories = [Some dragons, Some cats, Some dogs],
     fetches = [GET_story, POST_story (lit ''dragons''), POST_story (lit ''dragons'')],
     console = []\<rparr>"
    by (simp only: variants_agree_unless_null [OF h])
  with l p show ?thesis
    by (intro conjI)
qed

text \<open>
  C9 over every backend response fails when an ok response to the POST carries the JSON
  \<^verbatim>\<open>null\<close>. With \<open>dragons\<close> typed and sent, the styled component takes the success path:
  it clears the prompt, sets no error and puts \<^verbatim>\<open>null\<close> in front of the collection. The
  plain component throws on \<^verbatim>\<open>data.story\<close>: it keeps the prompt and the collection and
  shows the message of the TypeError.
\<close>

theorem null_story_counterexample:
  "shared (foldl styled_step styled_init
     [Change (lit ''dragons''), KeyDown (lit ''Enter''), Generated (Resolved null_200)]) =
   \<lparr>prompt = [], loading = False, error = None, stories = [None],
     fetches = [POST_story (lit ''dragons'')], console = []\<rparr> \<and>
   shared (foldl plain_step plain_init
     [Change (lit ''dragons''), KeyDown (lit ''Enter''), Generated (Resolved null_200)]) =
   \<lparr>prompt = lit ''dragons'', loading = False, error = Some null_story_message, stories = [],
     fetches = [POST_story (lit ''dragons'')], console = []\<rparr> \<and>
   shared (foldl styled_step styled_init
     [Change (lit ''dragons''), KeyDown (lit ''Enter''), Generated (Resolved null_200)]) \<noteq>
   shared (foldl plain_step plain_init
     [Change (lit ''dragons''), KeyDown (lit ''Enter''), Generated (Resolved null_200)])"
  by (simp add: shared_def example_defs generate_defs styled_keyDown_def plain_keyDown_def
      ok_def or_else_def trim_dragons null_story_message_nonempty) (simp add: lit_def)

end
